theory Spec2Isabelle
  imports Complex_Main
begin

section \<open>Python values, exceptions and builtins\<close>

text \<open>
  Component records and their \<open>specs\<close> are JSON data read with \<open>json.loads\<close>. Following
  the data model (string keys, scalar or nested-mapping values), a value is \<open>None\<close>, a
  boolean, an integer, a float, a string or a dictionary; JSON arrays are outside the
  model. A dictionary is an association list in insertion order, read with \<open>map_of\<close>.
  A float is modelled by the rational number it denotes: rounding, overflow and the
  non-finite floats are outside the model. Strings are over the first 256 code points.
\<close>

datatype pyval =
    PNone
  | PBool bool
  | PInt int
  | PFloat rat
  | PStr string
  | PDict "(string \<times> pyval) list"

datatype exn = KeyError | TypeError | AttributeError | ValueError

definition py_bind :: "exn + 'a \<Rightarrow> ('a \<Rightarrow> exn + 'b) \<Rightarrow> exn + 'b" where
  "py_bind x f = (case x of Inl e \<Rightarrow> Inl e | Inr v \<Rightarrow> f v)"

text \<open>
  Three builtins are parameters of the model, since their full behaviour is fixed by the
  Python implementation and not by this repository: the grammar of \<open>float(s)\<close> on a
  string (\<open>None\<close> stands for \<open>ValueError\<close>), \<open>repr\<close> of floats and dictionaries, and
  \<open>json.loads\<close> (\<open>None\<close> stands for \<open>JSONDecodeError\<close>).
\<close>

record builtins =
  float_of_str :: "string \<Rightarrow> rat option"
  repr :: "pyval \<Rightarrow> string"
  json_loads :: "string \<Rightarrow> pyval option"

subsection \<open>Strings\<close>

definition is_digit :: "char \<Rightarrow> bool" where
  "is_digit c = (c \<in> set ''0123456789'')"

definition digit_val :: "char \<Rightarrow> nat" where
  "digit_val c =
     (case map_of [(CHR ''0'', 0), (CHR ''1'', 1), (CHR ''2'', 2), (CHR ''3'', 3),
                   (CHR ''4'', 4), (CHR ''5'', 5), (CHR ''6'', 6), (CHR ''7'', 7),
                   (CHR ''8'', 8), (CHR ''9'', 9)] c of
        Some d \<Rightarrow> d
      | None \<Rightarrow> 0)"

definition int_of_digits :: "string \<Rightarrow> nat" where
  "int_of_digits ds = foldl (\<lambda>acc c. 10 * acc + digit_val c) 0 ds"

fun digits_of :: "nat \<Rightarrow> string" where
  "digits_of n =
     (if n < 10 then [''0123456789'' ! n]
      else digits_of (n div 10) @ [''0123456789'' ! (n mod 10)])"

declare digits_of.simps [simp del]

definition str_of_int :: "int \<Rightarrow> string" where
  "str_of_int i = (if i < 0 then CHR ''-'' # digits_of (nat (- i)) else digits_of (nat i))"

definition py_lower_char :: "char \<Rightarrow> char" where
  "py_lower_char c =
     (let n = (of_char c :: nat)
      in if (65 \<le> n \<and> n \<le> 90) \<or> (192 \<le> n \<and> n \<le> 222 \<and> n \<noteq> 215)
         then char_of (n + 32) else c)"

definition lower :: "string \<Rightarrow> string" where
  "lower s = map py_lower_char s"

fun startswith :: "string \<Rightarrow> string \<Rightarrow> bool" where
  "startswith s [] = True"
| "startswith [] (p # ps) = False"
| "startswith (c # cs) (p # ps) = (c = p \<and> startswith cs ps)"

fun is_substring :: "string \<Rightarrow> string \<Rightarrow> bool" where
  "is_substring sub [] = (sub = [])"
| "is_substring sub (c # cs) = (startswith (c # cs) sub \<or> is_substring sub cs)"

fun str_lt :: "string \<Rightarrow> string \<Rightarrow> bool" where
  "str_lt [] [] = False"
| "str_lt [] (y # ys) = True"
| "str_lt (x # xs) [] = False"
| "str_lt (x # xs) (y # ys) =
     (if x = y then str_lt xs ys else (of_char x :: nat) < of_char y)"

text \<open>\<open>re.search(r'\d+', s)\<close>: the first maximal run of digits, if there is one.\<close>

definition search_digits :: "string \<Rightarrow> string option" where
  "search_digits s =
     (case dropWhile (\<lambda>c. \<not> is_digit c) s of
        [] \<Rightarrow> None
      | c # cs \<Rightarrow> Some (takeWhile is_digit (c # cs)))"

text \<open>\<open>key.split(".")\<close>\<close>

fun split_dot :: "string \<Rightarrow> string list" where
  "split_dot [] = [[]]"
| "split_dot (c # cs) =
     (if c = CHR ''.'' then [] # split_dot cs
      else (case split_dot cs of p # ps \<Rightarrow> (c # p) # ps | [] \<Rightarrow> [[c]]))"

subsection \<open>Operations on values\<close>

definition py_str :: "builtins \<Rightarrow> pyval \<Rightarrow> string" where
  "py_str env v =
     (case v of
        PStr s \<Rightarrow> s
      | PNone \<Rightarrow> ''None''
      | PBool b \<Rightarrow> (if b then ''True'' else ''False'')
      | PInt i \<Rightarrow> str_of_int i
      | PFloat r \<Rightarrow> repr env v
      | PDict d \<Rightarrow> repr env v)"

definition truthy :: "pyval \<Rightarrow> bool" where
  "truthy v =
     (case v of
        PNone \<Rightarrow> False
      | PBool b \<Rightarrow> b
      | PInt i \<Rightarrow> i \<noteq> 0
      | PFloat r \<Rightarrow> r \<noteq> 0
      | PStr s \<Rightarrow> s \<noteq> []
      | PDict d \<Rightarrow> d \<noteq> [])"

text \<open>\<open>v[k]\<close> with a string key \<open>k\<close>\<close>

definition py_getitem :: "pyval \<Rightarrow> string \<Rightarrow> exn + pyval" where
  "py_getitem v k =
     (case v of
        PDict d \<Rightarrow> (case map_of d k of None \<Rightarrow> Inl KeyError | Some x \<Rightarrow> Inr x)
      | _ \<Rightarrow> Inl TypeError)"

text \<open>\<open>v.get(k, default)\<close>: only a dictionary has the method\<close>

definition dict_get :: "pyval \<Rightarrow> string \<Rightarrow> pyval \<Rightarrow> exn + pyval" where
  "dict_get v k dflt =
     (case v of
        PDict d \<Rightarrow> Inr (case map_of d k of None \<Rightarrow> dflt | Some x \<Rightarrow> x)
      | _ \<Rightarrow> Inl AttributeError)"

text \<open>\<open>k in v\<close> with a string \<open>k\<close>: key membership in a dictionary, substring test in a
  string, \<open>TypeError\<close> for a value that is not iterable\<close>

definition py_contains :: "string \<Rightarrow> pyval \<Rightarrow> exn + bool" where
  "py_contains k v =
     (case v of
        PDict d \<Rightarrow> Inr (map_of d k \<noteq> None)
      | PStr s \<Rightarrow> Inr (is_substring k s)
      | _ \<Rightarrow> Inl TypeError)"

text \<open>\<open>s.lower()\<close>: only a string has the method\<close>

definition str_lower :: "pyval \<Rightarrow> exn + string" where
  "str_lower v = (case v of PStr s \<Rightarrow> Inr (lower s) | _ \<Rightarrow> Inl AttributeError)"

definition num_of :: "pyval \<Rightarrow> rat option" where
  "num_of v =
     (case v of
        PBool b \<Rightarrow> Some (if b then 1 else 0)
      | PInt i \<Rightarrow> Some (of_int i)
      | PFloat r \<Rightarrow> Some r
      | _ \<Rightarrow> None)"

text \<open>\<open>a < b\<close>: numbers with numbers, strings with strings, \<open>TypeError\<close> otherwise\<close>

definition py_lt :: "pyval \<Rightarrow> pyval \<Rightarrow> exn + bool" where
  "py_lt a b =
     (case (num_of a, num_of b) of
        (Some x, Some y) \<Rightarrow> Inr (x < y)
      | _ \<Rightarrow> (case (a, b) of
                (PStr s, PStr t) \<Rightarrow> Inr (str_lt s t)
              | _ \<Rightarrow> Inl TypeError))"

text \<open>\<open>float(v)\<close>\<close>

definition py_float :: "builtins \<Rightarrow> pyval \<Rightarrow> exn + rat" where
  "py_float env v =
     (case v of
        PNone \<Rightarrow> Inl TypeError
      | PBool b \<Rightarrow> Inr (if b then 1 else 0)
      | PInt i \<Rightarrow> Inr (of_int i)
      | PFloat r \<Rightarrow> Inr r
      | PStr s \<Rightarrow> (case float_of_str env s of None \<Rightarrow> Inl ValueError | Some r \<Rightarrow> Inr r)
      | PDict d \<Rightarrow> Inl TypeError)"

text \<open>\<open>v * r\<close> for a float literal \<open>r\<close>: a string (a sequence) cannot be multiplied by a
  float\<close>

definition py_mul_float :: "pyval \<Rightarrow> rat \<Rightarrow> exn + rat" where
  "py_mul_float v r = (case num_of v of Some x \<Rightarrow> Inr (x * r) | None \<Rightarrow> Inl TypeError)"

text \<open>\<open>d[k] = v\<close> on a dictionary: an existing key keeps its place\<close>

fun dict_set :: "('k \<times> 'v) list \<Rightarrow> 'k \<Rightarrow> 'v \<Rightarrow> ('k \<times> 'v) list" where
  "dict_set [] k v = [(k, v)]"
| "dict_set ((k', v') # d) k v = (if k' = k then (k, v) # d else (k', v') # dict_set d k v)"

text \<open>A dictionary cannot be a dictionary key.\<close>

definition hashable :: "pyval \<Rightarrow> bool" where
  "hashable v = (case v of PDict d \<Rightarrow> False | _ \<Rightarrow> True)"

text \<open>\<open>round(x)\<close>: to the nearest integer, a tie to the even one\<close>

definition py_round :: "rat \<Rightarrow> int" where
  "py_round x =
     (let f = \<lfloor>x\<rfloor>; d = x - of_int f
      in if d < 1 / 2 then f else if 1 / 2 < d then f + 1 else if even f then f else f + 1)"

section \<open>Attribute filter engine (querytools.py)\<close>

text \<open>The body of each \<open>try\<close> block of \<open>_value_matches\<close> and its \<open>except\<close> clause.\<close>

definition float_compare ::
  "builtins \<Rightarrow> (rat \<Rightarrow> rat \<Rightarrow> bool) \<Rightarrow> string \<Rightarrow> pyval \<Rightarrow> exn + bool" where
  "float_compare env cmp text actual_value =
     py_bind (py_float env (PStr text)) (\<lambda>threshold.
     py_bind (py_float env actual_value) (\<lambda>a. Inr (cmp a threshold)))"

definition except_value_type :: "exn + bool \<Rightarrow> exn + bool" where
  "except_value_type r =
     (case r of
        Inl ValueError \<Rightarrow> Inr False
      | Inl TypeError \<Rightarrow> Inr False
      | _ \<Rightarrow> r)"

definition value_matches :: "builtins \<Rightarrow> pyval \<Rightarrow> pyval \<Rightarrow> exn + bool" where
  "value_matches env actual_value filter_value =
     (case filter_value of
        PStr s \<Rightarrow>
          if startswith s ''>='' then
            except_value_type (float_compare env (\<lambda>a t. a \<ge> t) (drop 2 s) actual_value)
          else if startswith s ''<='' then
            except_value_type (float_compare env (\<lambda>a t. a \<le> t) (drop 2 s) actual_value)
          else if startswith s ''>'' then
            except_value_type (float_compare env (\<lambda>a t. a > t) (drop 1 s) actual_value)
          else if startswith s ''<'' then
            except_value_type (float_compare env (\<lambda>a t. a < t) (drop 1 s) actual_value)
          else Inr (py_str env actual_value = py_str env filter_value)
      | _ \<Rightarrow> Inr (py_str env actual_value = py_str env filter_value))"

text \<open>The descent along a dotted key: \<open>PNone\<close> when a segment is absent.\<close>

fun descend :: "pyval \<Rightarrow> string list \<Rightarrow> exn + pyval" where
  "descend current_value [] = Inr current_value"
| "descend current_value (part # parts) =
     py_bind (py_contains part current_value) (\<lambda>present.
       if present then py_bind (py_getitem current_value part) (\<lambda>nxt. descend nxt parts)
       else Inr PNone)"

text \<open>The inner loop of \<open>_apply_spec_filters\<close> over the filter conditions of one item:
  the value of \<open>match\<close> when the loop ends.\<close>

fun item_matches :: "builtins \<Rightarrow> pyval \<Rightarrow> (string \<times> pyval) list \<Rightarrow> exn + bool" where
  "item_matches env item [] = Inr True"
| "item_matches env item ((key, val) # filters) =
     (if key \<in> set [''brand'', ''min_price'', ''max_price''] then item_matches env item filters
      else if CHR ''.'' \<in> set key then
        py_bind (py_getitem item ''specs'') (\<lambda>specs.
        py_bind (descend specs (split_dot key)) (\<lambda>current_value.
          if current_value = PNone then Inr False
          else py_bind (value_matches env current_value val) (\<lambda>m.
            if \<not> m then Inr False else item_matches env item filters)))
      else
        py_bind (py_getitem item ''specs'') (\<lambda>specs.
        py_bind (py_contains key specs) (\<lambda>present.
          if present then
            py_bind (py_getitem item ''specs'') (\<lambda>specs'.
            py_bind (py_getitem specs' key) (\<lambda>actual.
            py_bind (value_matches env actual val) (\<lambda>m.
              if \<not> m then Inr False else item_matches env item filters)))
          else Inr False)))"

fun apply_spec_filters ::
  "builtins \<Rightarrow> pyval list \<Rightarrow> (string \<times> pyval) list \<Rightarrow> exn + pyval list" where
  "apply_spec_filters env [] filters = Inr []"
| "apply_spec_filters env (item # items) filters =
     py_bind (item_matches env item filters) (\<lambda>m.
     py_bind (apply_spec_filters env items filters) (\<lambda>filtered_items.
       Inr (if m then item # filtered_items else filtered_items)))"

section \<open>Compatibility rule engine (check_compatibility.py)\<close>

text \<open>
  A verdict is the triple \<open>(compatible, message, confidence)\<close>. The messages are Chinese
  text with values spliced in; each message of the source is a constructor carrying the
  spliced values, and the text itself is not modelled.
\<close>

datatype shortfall =
    Wattage_insufficient pyval pyval
  | Connectors_insufficient pyval pyval

datatype msg =
    Socket_match pyval
  | Socket_mismatch pyval pyval
  | Socket_missing
  | Memory_missing
  | Memory_supported string
  | Memory_unsupported "string list" string
  | Form_factor_missing
  | Form_factor_fits string
  | Form_factor_unsupported string
  | Size_incomplete
  | Length_fits rat
  | Length_too_long rat rat
  | Power_incomplete
  | Power_short "shortfall list"
  | Power_ok
  | Connector_missing
  | Connector_match pyval
  | Connector_mismatch pyval pyval
  | LLM_check_failed
  | LLM_reason pyval

type_synonym verdict = "pyval \<times> msg \<times> pyval"

type_synonym rule = "pyval \<Rightarrow> pyval \<Rightarrow> exn + verdict"

subsection \<open>The local rules\<close>

text \<open>\<open>socket_cleaner = lambda s: re.sub(r'[^a-z0-9]', '', s.lower().replace(' ', ''))\<close>\<close>

definition is_lower_alnum :: "char \<Rightarrow> bool" where
  "is_lower_alnum c = (c \<in> set ''abcdefghijklmnopqrstuvwxyz0123456789'')"

definition socket_cleaner :: "pyval \<Rightarrow> exn + string" where
  "socket_cleaner s =
     py_bind (str_lower s) (\<lambda>l. Inr (filter is_lower_alnum (filter (\<lambda>c. c \<noteq> CHR '' '') l)))"

definition check_cpu_motherboard :: rule where
  "check_cpu_motherboard cpu motherboard =
     py_bind (py_getitem cpu ''specs'') (\<lambda>cpu_specs.
     py_bind (dict_get cpu_specs ''socket'' (PStr [])) (\<lambda>cpu_raw.
     py_bind (socket_cleaner cpu_raw) (\<lambda>cpu_socket.
     py_bind (py_getitem motherboard ''specs'') (\<lambda>mobo_specs.
     py_bind (dict_get mobo_specs ''socket'' (PStr [])) (\<lambda>mobo_raw.
     py_bind (socket_cleaner mobo_raw) (\<lambda>mobo_socket.
       if cpu_socket \<noteq> [] \<and> mobo_socket \<noteq> [] then
         if cpu_socket = mobo_socket then
           py_bind (py_getitem cpu_specs ''socket'') (\<lambda>shown.
             Inr (PBool True, Socket_match shown, PFloat 1))
         else
           py_bind (py_getitem cpu_specs ''socket'') (\<lambda>shown_cpu.
           py_bind (py_getitem mobo_specs ''socket'') (\<lambda>shown_mobo.
             Inr (PBool False, Socket_mismatch shown_cpu shown_mobo, PFloat 1)))
       else Inr (PNone, Socket_missing, PFloat (1 / 2))))))))"

text \<open>\<open>re.findall(r'ddr[345]', s)\<close> and \<open>re.search(r'ddr[345]', s)\<close>\<close>

fun findall_ddr :: "string \<Rightarrow> string list" where
  "findall_ddr (a # b # c # d # rest) =
     (if [a, b, c] = ''ddr'' \<and> d \<in> set ''345'' then [a, b, c, d] # findall_ddr rest
      else findall_ddr (b # c # d # rest))"
| "findall_ddr s = []"

fun search_ddr :: "string \<Rightarrow> string option" where
  "search_ddr (a # b # c # d # rest) =
     (if [a, b, c] = ''ddr'' \<and> d \<in> set ''345'' then Some [a, b, c, d]
      else search_ddr (b # c # d # rest))"
| "search_ddr s = None"

definition check_motherboard_memory :: rule where
  "check_motherboard_memory motherboard memory =
     py_bind (py_getitem motherboard ''specs'') (\<lambda>mobo_specs.
     py_bind (dict_get mobo_specs ''memory_support'' (PStr [])) (\<lambda>support_raw.
     py_bind (str_lower support_raw) (\<lambda>support.
     py_bind (py_getitem memory ''specs'') (\<lambda>mem_specs.
     py_bind (dict_get mem_specs ''memory_type'' (PStr [])) (\<lambda>type_raw.
     py_bind (str_lower type_raw) (\<lambda>type_text.
       let supported_types = findall_ddr support in
       (case search_ddr type_text of
          None \<Rightarrow> Inr (PNone, Memory_missing, PFloat (1 / 2))
        | Some mem_type \<Rightarrow>
            if supported_types = [] then Inr (PNone, Memory_missing, PFloat (1 / 2))
            else if mem_type \<in> set supported_types then
              Inr (PBool True, Memory_supported mem_type, PFloat 1)
            else
              Inr (PBool False, Memory_unsupported supported_types mem_type,
                   PFloat (9 / 10)))))))))"

definition check_motherboard_case :: rule where
  "check_motherboard_case motherboard pc_case =
     py_bind (py_getitem motherboard ''specs'') (\<lambda>mobo_specs.
     py_bind (dict_get mobo_specs ''form_factor'' (PStr [])) (\<lambda>form_raw.
     py_bind (str_lower form_raw) (\<lambda>mobo_form_factor.
     py_bind (py_getitem pc_case ''specs'') (\<lambda>case_specs.
     py_bind (dict_get case_specs ''supported_form_factors'' (PStr [])) (\<lambda>support_raw.
     py_bind (str_lower support_raw) (\<lambda>case_support.
       if mobo_form_factor = [] \<or> case_support = [] then
         Inr (PNone, Form_factor_missing, PFloat (1 / 2))
       else if is_substring mobo_form_factor case_support then
         Inr (PBool True, Form_factor_fits mobo_form_factor, PFloat 1)
       else
         Inr (PBool False, Form_factor_unsupported mobo_form_factor, PFloat (9 / 10))))))))"

text \<open>\<open>float(re.search(r'\d+', text).group())\<close>: \<open>re.search\<close> raises \<open>TypeError\<close> on a
  value that is not a string, and \<open>.group()\<close> on \<open>None\<close> raises \<open>AttributeError\<close>.\<close>

definition first_number :: "pyval \<Rightarrow> exn + rat" where
  "first_number text =
     (case text of
        PStr s \<Rightarrow> (case search_digits s of
                    None \<Rightarrow> Inl AttributeError
                  | Some ds \<Rightarrow> Inr (of_nat (int_of_digits ds)))
      | _ \<Rightarrow> Inl TypeError)"

definition check_gpu_case :: rule where
  "check_gpu_case gpu pc_case =
     (case py_bind (py_getitem gpu ''specs'') (\<lambda>gpu_specs.
           py_bind (dict_get gpu_specs ''length'' (PStr [])) (\<lambda>length_raw.
           py_bind (first_number length_raw) (\<lambda>gpu_length.
           py_bind (py_getitem pc_case ''specs'') (\<lambda>case_specs.
           py_bind (dict_get case_specs ''max_gpu_length'' (PStr [])) (\<lambda>max_raw.
           py_bind (first_number max_raw) (\<lambda>case_max_gpu.
             Inr (gpu_length, case_max_gpu))))))) of
        Inl e \<Rightarrow> Inr (PNone, Size_incomplete, PFloat (1 / 2))
      | Inr (gpu_length, case_max_gpu) \<Rightarrow>
          if gpu_length \<le> case_max_gpu then
            Inr (PBool True, Length_fits gpu_length, PFloat 1)
          else
            Inr (PBool False, Length_too_long gpu_length case_max_gpu, PFloat (9 / 10)))"

definition check_gpu_power :: rule where
  "check_gpu_power gpu power_supply =
     py_bind (py_getitem gpu ''specs'') (\<lambda>gpu_specs.
     py_bind (dict_get gpu_specs ''recommended_psu'' (PInt 0)) (\<lambda>required_power.
     py_bind (py_getitem power_supply ''specs'') (\<lambda>power_specs.
     py_bind (dict_get power_specs ''output_power'' (PInt 0)) (\<lambda>psu_power.
     py_bind (py_getitem power_supply ''specs'') (\<lambda>power_specs'.
     py_bind (dict_get power_specs' ''pcie_connectors'' (PInt 0)) (\<lambda>psu_connectors.
     py_bind (py_getitem gpu ''specs'') (\<lambda>gpu_specs'.
     py_bind (dict_get gpu_specs' ''power_connectors'' (PInt 0)) (\<lambda>gpu_required.
       if \<not> list_all truthy [required_power, psu_power, psu_connectors, gpu_required] then
         Inr (PNone, Power_incomplete, PFloat (6 / 10))
       else
         py_bind (py_lt psu_power required_power) (\<lambda>watts_short.
         py_bind (py_lt psu_connectors gpu_required) (\<lambda>connectors_short.
           let messages =
                 (if watts_short then [Wattage_insufficient psu_power required_power] else []) @
                 (if connectors_short then [Connectors_insufficient psu_connectors gpu_required]
                  else [])
           in if messages \<noteq> [] then Inr (PBool False, Power_short messages, PFloat (9 / 10))
              else Inr (PBool True, Power_ok, PFloat (9 / 10))))))))))))"

definition check_power_motherboard :: rule where
  "check_power_motherboard power_supply motherboard =
     py_bind (py_getitem motherboard ''specs'') (\<lambda>mobo_specs.
     py_bind (dict_get mobo_specs ''power_connector'' (PStr [])) (\<lambda>required_connector.
     py_bind (py_getitem power_supply ''specs'') (\<lambda>power_specs.
     py_bind (dict_get power_specs ''motherboard_connector'' (PStr [])) (\<lambda>psu_connector.
       if \<not> truthy required_connector \<or> \<not> truthy psu_connector then
         Inr (PNone, Connector_missing, PFloat (1 / 2))
       else
         py_bind (str_lower psu_connector) (\<lambda>psu_l.
         py_bind (str_lower required_connector) (\<lambda>required_l.
           if psu_l = required_l then
             Inr (PBool True, Connector_match required_connector, PFloat 1)
           else
             Inr (PBool False, Connector_mismatch psu_connector required_connector,
                  PFloat (9 / 10))))))))"

subsection \<open>The rule table, the adjudicator and the dispatch\<close>

text \<open>\<open>self.rules\<close> as \<open>__init__\<close> fills it.\<close>

definition init_rules :: "(string \<times> rule) list" where
  "init_rules =
     [(''cpu_motherboard'', check_cpu_motherboard),
      (''motherboard_ram'', check_motherboard_memory),
      (''motherboard_case'', check_motherboard_case),
      (''gpu_case'', check_gpu_case),
      (''gpu_power'', check_gpu_power),
      (''power_motherboard'', check_power_motherboard)]"

text \<open>The prompt of \<open>_check_with_llm\<close> is an f-string that reads five fields of each
  record, in this order; only whether these reads succeed is modelled.\<close>

definition prompt_fields :: "pyval \<Rightarrow> exn + unit" where
  "prompt_fields c =
     py_bind (py_getitem c ''category'') (\<lambda>_.
     py_bind (py_getitem c ''name'') (\<lambda>_.
     py_bind (py_getitem c ''brand'') (\<lambda>_.
     py_bind (py_getitem c ''model'') (\<lambda>_.
     py_bind (py_getitem c ''specs'') (\<lambda>_. Inr ())))))"

text \<open>
  The source holds a placeholder for the call of the adjudicator: a fixed reply string
  \<open>simulated_llm_output\<close>, to be replaced by the reply of an LLM API. The reply is the
  parameter \<open>llm_output\<close>. In the \<open>try\<close> block only \<open>json.JSONDecodeError\<close> is caught.
\<close>

definition check_with_llm :: "builtins \<Rightarrow> string \<Rightarrow> pyval \<Rightarrow> pyval \<Rightarrow> exn + verdict" where
  "check_with_llm env llm_output component_a component_b =
     py_bind (prompt_fields component_a) (\<lambda>_.
     py_bind (prompt_fields component_b) (\<lambda>_.
       case json_loads env llm_output of
         None \<Rightarrow> Inr (PBool False, LLM_check_failed, PFloat 0)
       | Some result \<Rightarrow>
           py_bind (py_getitem result ''compatible'') (\<lambda>compatible.
           py_bind (py_getitem result ''reason'') (\<lambda>reason.
           py_bind (py_getitem result ''confidence'') (\<lambda>confidence.
             Inr (compatible, LLM_reason reason, confidence))))))"

text \<open>\<open>check_type = f"{cat_a}_{cat_b}"\<close>\<close>

definition check_type :: "builtins \<Rightarrow> pyval \<Rightarrow> pyval \<Rightarrow> string" where
  "check_type env cat_a cat_b = py_str env cat_a @ ''_'' @ py_str env cat_b"

text \<open>The branch of \<open>check_compatibility\<close> for a registered check type: the rule runs,
  and its verdict is final if \<open>confidence > 0.8\<close>.\<close>

definition apply_rule ::
  "rule \<Rightarrow> builtins \<Rightarrow> string \<Rightarrow> pyval \<Rightarrow> pyval \<Rightarrow> exn + verdict" where
  "apply_rule rule env llm_output component_a component_b =
     py_bind (rule component_a component_b) (\<lambda>(compatible, message, confidence).
     py_bind (py_lt (PFloat (8 / 10)) confidence) (\<lambda>high.
       if high then Inr (compatible, message, confidence)
       else check_with_llm env llm_output component_a component_b))"

text \<open>The rule table \<open>self.rules\<close> is an argument, so that a table extended by further
  rules is covered as well.\<close>

definition check_compatibility ::
  "(string \<times> rule) list \<Rightarrow> builtins \<Rightarrow> string \<Rightarrow> pyval \<Rightarrow> pyval \<Rightarrow> exn + verdict" where
  "check_compatibility rules env llm_output component_a component_b =
     py_bind (py_getitem component_a ''category'') (\<lambda>cat_a.
     py_bind (py_getitem component_b ''category'') (\<lambda>cat_b.
       case map_of rules (check_type env cat_a cat_b) of
         Some rule \<Rightarrow> apply_rule rule env llm_output component_a component_b
       | None \<Rightarrow> check_with_llm env llm_output component_a component_b))"

text \<open>The cases in which \<open>check_compatibility\<close> hands the pair to the adjudicator: no rule
  is registered for the check type, or the rule returned a confidence that is not above
  0.8.\<close>

definition escalates :: "(string \<times> rule) list \<Rightarrow> builtins \<Rightarrow> pyval \<Rightarrow> pyval \<Rightarrow> bool" where
  "escalates rules env component_a component_b =
     (case (py_getitem component_a ''category'', py_getitem component_b ''category'') of
        (Inr cat_a, Inr cat_b) \<Rightarrow>
          (case map_of rules (check_type env cat_a cat_b) of
             None \<Rightarrow> True
           | Some rule \<Rightarrow>
               (case rule component_a component_b of
                  Inr (compatible, message, confidence) \<Rightarrow>
                    py_lt (PFloat (8 / 10)) confidence = Inr False
                | Inl e \<Rightarrow> False))
      | _ \<Rightarrow> False)"

section \<open>Power budget estimator (power_consumption.py)\<close>

definition COMPONENT_POWER_ESTIMATES :: "(string \<times> int) list" where
  "COMPONENT_POWER_ESTIMATES =
     [(''motherboard'', 30), (''ram'', 5), (''ssd'', 5), (''hdd'', 10), (''cooling'', 10),
      (''other'', 30)]"

definition common_psu_wattages :: "int list" where
  "common_psu_wattages = [450, 550, 650, 750, 850, 1000, 1200, 1500]"

record power_report =
  total_power_estimate :: int
  recommended_psu_wattage :: int
  component_breakdown :: "(string \<times> pyval) list"

text \<open>
  The counting loop. The keys of \<open>component_counts\<close> are the \<open>category\<close> values and are
  compared structurally here; Python also takes \<open>1\<close>, \<open>1.0\<close> and \<open>True\<close> for one key,
  which nothing below observes, since the table is read at string keys only.
\<close>

fun count_components :: "pyval list \<Rightarrow> (pyval \<times> int) list \<Rightarrow> exn + (pyval \<times> int) list" where
  "count_components [] component_counts = Inr component_counts"
| "count_components (component # rest) component_counts =
     py_bind (py_getitem component ''category'') (\<lambda>comp_type.
       if \<not> hashable comp_type then Inl TypeError
       else count_components rest
              (dict_set component_counts comp_type
                 ((case map_of component_counts comp_type of None \<Rightarrow> 0 | Some n \<Rightarrow> n) + 1)))"

text \<open>\<open>[c for c in config_list if c['category'] == k]\<close>\<close>

fun with_category :: "string \<Rightarrow> pyval list \<Rightarrow> exn + pyval list" where
  "with_category k [] = Inr []"
| "with_category k (c # cs) =
     py_bind (py_getitem c ''category'') (\<lambda>cat.
     py_bind (with_category k cs) (\<lambda>rest.
       Inr (if cat = PStr k then c # rest else rest)))"

text \<open>The total so far and the breakdown so far are threaded through the three parts.\<close>

type_synonym power_acc = "rat \<times> (string \<times> pyval) list"

definition add_cpu :: "pyval list \<Rightarrow> power_acc \<Rightarrow> exn + power_acc" where
  "add_cpu cpu_components acc =
     (case cpu_components of
        [] \<Rightarrow> Inr acc
      | cpu # others \<Rightarrow>
          py_bind (py_getitem cpu ''specs'') (\<lambda>specs.
          py_bind (dict_get specs ''tdp'' (PInt 65)) (\<lambda>cpu_tdp.
          py_bind (py_mul_float cpu_tdp (12 / 10)) (\<lambda>cpu_power.
            Inr (fst acc + cpu_power, dict_set (snd acc) ''cpu'' (PFloat cpu_power))))))"

text \<open>The name table of the last fallback, on the lowercased model string.\<close>

definition gpu_model_power :: "string \<Rightarrow> int" where
  "gpu_model_power gpu_model =
     (if is_substring ''rtx 4090'' gpu_model \<or> is_substring ''rx 7900 xtx'' gpu_model then 450
      else if is_substring ''rtx 4080'' gpu_model \<or> is_substring ''rx 7900 xt'' gpu_model then 320
      else if is_substring ''rtx 4070'' gpu_model \<or> is_substring ''rx 7800 xt'' gpu_model then 200
      else if is_substring ''rtx 4060'' gpu_model \<or> is_substring ''rx 7700 xt'' gpu_model then 160
      else 150)"

text \<open>The value of \<open>gpu_power\<close> before the peak margin is applied (the
  \<open>if\<close>/\<open>elif\<close>/\<open>else\<close> at the head of the loop over the GPUs).\<close>

definition gpu_base_power :: "builtins \<Rightarrow> pyval \<Rightarrow> exn + pyval" where
  "gpu_base_power env gpu =
     py_bind (py_getitem gpu ''specs'') (\<lambda>specs.
     py_bind (py_contains ''tdp'' specs) (\<lambda>has_tdp.
       if has_tdp then
         py_bind (py_getitem gpu ''specs'') (\<lambda>specs'. py_getitem specs' ''tdp'')
       else
         py_bind (py_getitem gpu ''specs'') (\<lambda>specs'.
         py_bind (py_contains ''recommended_psu'' specs') (\<lambda>has_recommended.
           if has_recommended then
             py_bind (py_getitem gpu ''specs'') (\<lambda>specs''.
             py_bind (py_getitem specs'' ''recommended_psu'') (\<lambda>recommended_psu.
               case search_digits (py_str env recommended_psu) of
                 Some ds \<Rightarrow> Inr (PFloat (of_nat (int_of_digits ds) * (4 / 10)))
               | None \<Rightarrow> Inr (PInt 150)))
           else
             py_bind (py_getitem gpu ''model'') (\<lambda>model.
             py_bind (str_lower model) (\<lambda>gpu_model.
               Inr (PInt (gpu_model_power gpu_model))))))))"

definition add_gpu :: "builtins \<Rightarrow> pyval \<Rightarrow> power_acc \<Rightarrow> exn + power_acc" where
  "add_gpu env gpu acc =
     py_bind (gpu_base_power env gpu) (\<lambda>base.
     py_bind (py_mul_float base (115 / 100)) (\<lambda>gpu_power.
     py_bind (py_getitem gpu ''model'') (\<lambda>model.
       Inr (fst acc + gpu_power,
            dict_set (snd acc) (''gpu_'' @ py_str env model) (PFloat gpu_power)))))"

fun add_gpus :: "builtins \<Rightarrow> pyval list \<Rightarrow> power_acc \<Rightarrow> exn + power_acc" where
  "add_gpus env [] acc = Inr acc"
| "add_gpus env (gpu # gpus) acc = py_bind (add_gpu env gpu acc) (add_gpus env gpus)"

fun add_estimates :: "(string \<times> int) list \<Rightarrow> (pyval \<times> int) list \<Rightarrow> power_acc \<Rightarrow> power_acc" where
  "add_estimates [] component_counts acc = acc"
| "add_estimates ((comp_type, estimate) # table) component_counts acc =
     (case map_of component_counts (PStr comp_type) of
        Some count \<Rightarrow>
          (let power = estimate * count
           in add_estimates table component_counts
                (fst acc + of_int power, dict_set (snd acc) comp_type (PInt power)))
      | None \<Rightarrow> add_estimates table component_counts acc)"

text \<open>The \<open>for\<close>/\<open>else\<close> over the standard wattages.\<close>

fun round_to_standard :: "int list \<Rightarrow> int \<Rightarrow> int" where
  "round_to_standard [] recommended_psu = py_round (of_int recommended_psu / 100) * 100"
| "round_to_standard (wattage # wattages) recommended_psu =
     (if wattage \<ge> recommended_psu then wattage
      else round_to_standard wattages recommended_psu)"

definition calculate_power_consumption :: "builtins \<Rightarrow> pyval list \<Rightarrow> exn + power_report" where
  "calculate_power_consumption env config_list =
     py_bind (count_components config_list []) (\<lambda>component_counts.
     py_bind (with_category ''cpu'' config_list) (\<lambda>cpu_components.
     py_bind (add_cpu cpu_components (0, [])) (\<lambda>after_cpu.
     py_bind (with_category ''gpu'' config_list) (\<lambda>gpu_components.
     py_bind (add_gpus env gpu_components after_cpu) (\<lambda>after_gpu.
       let (total_power, breakdown) =
             add_estimates COMPONENT_POWER_ESTIMATES component_counts after_gpu;
           safety_margin = (if total_power > 600 then 13 / 10 else 12 / 10);
           recommended_psu = py_round (total_power * safety_margin)
       in Inr \<lparr>total_power_estimate = py_round total_power,
               recommended_psu_wattage = round_to_standard common_psu_wattages recommended_psu,
               component_breakdown = breakdown\<rparr>)))))"

section \<open>The filter comparison as the specification words it\<close>




section \<open>Sample data\<close>

text \<open>
  A sample of the builtins for the concrete evaluations below. It agrees with Python
  where the evaluations use it: \<open>float\<close> of a non-empty run of decimal digits is its
  value and \<open>float\<close> of a string without a numeric reading raises; \<open>json.loads\<close> reads
  the texts \<open>{}\<close> and \<open>null\<close> and is used besides only on a text that is not JSON. No
  evaluation below calls \<open>repr\<close>.
\<close>

definition sample_builtins :: builtins where
  "sample_builtins =
     \<lparr>float_of_str =
        (\<lambda>s. if s \<noteq> [] \<and> list_all is_digit s then Some (of_nat (int_of_digits s)) else None),
      repr = (\<lambda>v. []),
      json_loads =
        (\<lambda>s. if s = ''{}'' then Some (PDict [])
             else if s = ''null'' then Some PNone
             else None)\<rparr>"

definition component ::
  "string \<Rightarrow> string \<Rightarrow> (string \<times> pyval) list \<Rightarrow> pyval" where
  "component category model specs =
     PDict [(''name'', PStr model), (''category'', PStr category), (''brand'', PStr ''Generic''),
            (''model'', PStr model), (''price'', PInt 999), (''specs'', PDict specs)]"

definition cpu_8_cores :: pyval where
  "cpu_8_cores = component ''cpu'' ''Eight'' [(''core_count'', PInt 8), (''socket'', PStr ''LGA 1700'')]"

definition cpu_4_cores :: pyval where
  "cpu_4_cores = component ''cpu'' ''Four'' [(''core_count'', PInt 4), (''socket'', PStr ''AM4'')]"

definition mobo_lga1700 :: pyval where
  "mobo_lga1700 =
     component ''motherboard'' ''Board'' [(''socket'', PStr ''lga1700''), (''form_factor'', PStr ''ATX'')]"

definition cpu_no_socket :: pyval where
  "cpu_no_socket = component ''cpu'' ''Bare'' [(''tdp'', PInt 65)]"

definition cpu_dash_socket :: pyval where
  "cpu_dash_socket = component ''cpu'' ''Dash'' [(''socket'', PStr ''-'')]"

definition mobo_dash_socket :: pyval where
  "mobo_dash_socket = component ''motherboard'' ''Dash'' [(''socket'', PStr ''-'')]"

definition gpu_two_connectors :: pyval where
  "gpu_two_connectors =
     component ''gpu'' ''RTX 4070'' [(''recommended_psu'', PInt 650), (''power_connectors'', PInt 2)]"

definition psu_750 :: pyval where
  "psu_750 =
     component ''psu'' ''Gold 750'' [(''output_power'', PInt 750), (''pcie_connectors'', PInt 4),
       (''motherboard_connector'', PStr ''24-pin'')]"

definition power_750 :: pyval where
  "power_750 =
     component ''power'' ''Gold 750'' [(''output_power'', PInt 750), (''pcie_connectors'', PInt 4),
       (''motherboard_connector'', PStr ''24-pin'')]"

definition mobo_24_pin :: pyval where
  "mobo_24_pin = component ''motherboard'' ''Board'' [(''power_connector'', PStr ''24-PIN'')]"

text \<open>A rule that returns a confidence of exactly 0.8, registered for the check type
  \<open>ram_case\<close>, and a pair of records for it.\<close>

definition rule_at_threshold :: rule where
  "rule_at_threshold a b = Inr (PBool True, Power_ok, PFloat (8 / 10))"

definition ram_stick :: pyval where
  "ram_stick = component ''ram'' ''Stick'' [(''memory_type'', PStr ''DDR5'')]"

definition tower_case :: pyval where
  "tower_case = component ''case'' ''Tower'' [(''max_gpu_length'', PStr ''350mm'')]"

text \<open>Records with spec values of the wrong type: a wattage given as text, a
  \<open>benchmarks\<close> entry that is a number and not a mapping, a TDP given as text.\<close>

definition gpu_text_wattage :: pyval where
  "gpu_text_wattage =
     component ''gpu'' ''RTX 4070'' [(''recommended_psu'', PStr ''650W''), (''power_connectors'', PInt 2)]"

definition cpu_flat_benchmarks :: pyval where
  "cpu_flat_benchmarks = component ''cpu'' ''Flat'' [(''benchmarks'', PInt 5)]"

definition cpu_text_tdp :: pyval where
  "cpu_text_tdp = component ''cpu'' ''Text'' [(''tdp'', PStr ''65W'')]"

text \<open>The list of the power estimation example of the specification, record by record
  as it is written there, and the same list with a \<open>model\<close> field on the GPU.\<close>

definition spec_example :: "pyval list" where
  "spec_example =
     [PDict [(''category'', PStr ''cpu''), (''specs'', PDict [(''tdp'', PInt 65)])],
      PDict [(''category'', PStr ''gpu''), (''specs'', PDict [(''tdp'', PInt 200)])],
      PDict [(''category'', PStr ''ram'')],
      PDict [(''category'', PStr ''ssd'')]]"

definition spec_example_with_model :: "string \<Rightarrow> pyval list" where
  "spec_example_with_model m =
     [PDict [(''category'', PStr ''cpu''), (''specs'', PDict [(''tdp'', PInt 65)])],
      PDict [(''category'', PStr ''gpu''), (''model'', PStr m),
             (''specs'', PDict [(''tdp'', PInt 200)])],
      PDict [(''category'', PStr ''ram'')],
      PDict [(''category'', PStr ''ssd'')]]"

text \<open>The \<open>sample_config\<close> under \<open>__main__\<close> in power_consumption.py.\<close>

definition sample_config :: "pyval list" where
  "sample_config =
     [PDict [(''name'', PStr ''Intel Core i5-13400F''), (''category'', PStr ''cpu''),
             (''specs'', PDict [(''tdp'', PInt 65)])],
      PDict [(''name'', PStr ''NVIDIA GeForce RTX 4060''), (''category'', PStr ''gpu''),
             (''specs'', PDict [(''recommended_psu'', PStr ''550W'')])],
      PDict [(''name'', PStr ''ASUS TUF Gaming B760-PLUS''), (''category'', PStr ''motherboard''),
             (''specs'', PDict [])],
      PDict [(''name'', PStr ''Corsair Vengeance 16GB DDR5''), (''category'', PStr ''ram''),
             (''specs'', PDict [])],
      PDict [(''name'', PStr ''Samsung 980 Pro 1TB''), (''category'', PStr ''ssd''),
             (''specs'', PDict [])]]"

definition gpu_4090_text_psu :: pyval where
  "gpu_4090_text_psu = component ''gpu'' ''GeForce RTX 4090'' [(''recommended_psu'', PStr ''abc'')]"

definition gpu_4080_bare :: pyval where
  "gpu_4080_bare = component ''gpu'' ''GeForce RTX 4080'' []"

section \<open>Properties\<close>

lemma py_bind_Inl [simp]: "py_bind (Inl e) f = Inl e"
  by (simp add: py_bind_def)

lemma py_bind_Inr [simp]: "py_bind (Inr v) f = f v"
  by (simp add: py_bind_def)

subsection \<open>Filter engine\<close>





lemma filtered_items_match:
  "apply_spec_filters env items filters = Inr ys \<Longrightarrow> y \<in> set ys \<Longrightarrow>
     item_matches env y filters = Inr True"
proof (induction items arbitrary: ys)
  case Nil
  then show ?case by simp
next
  case (Cons item items)
  from Cons.prems(1) obtain m rest where
    m: "item_matches env item filters = Inr m" and
    rest: "apply_spec_filters env items filters = Inr rest" and
    ys: "ys = (if m then item # rest else rest)"
    by (auto simp: py_bind_def split: sum.splits)
  show ?case
  proof (cases "y \<in> set rest")
    case True
    with Cons.IH rest show ?thesis by blast
  next
    case False
    with Cons.prems(2) ys m show ?thesis by (auto split: if_splits)
  qed
qed

lemma matching_items_kept:
  "(\<And>y. y \<in> set ys \<Longrightarrow> item_matches env y filters = Inr True) \<Longrightarrow>
     apply_spec_filters env ys filters = Inr ys"
  by (induction ys) simp_all

text \<open>
  Claim C7. Spec-based filtering is idempotent: whenever \<open>_apply_spec_filters\<close> returns a
  list of records for a predicate set, applying the same predicate set to that list
  returns the same list, again without raising.
\<close>

theorem apply_spec_filters_idempotent:
  assumes "apply_spec_filters env items filters = Inr filtered_items"
  shows "apply_spec_filters env filtered_items filters = Inr filtered_items"
  using assms filtered_items_match matching_items_kept by blast

theorem apply_spec_filters_idempotent_witness:
  "apply_spec_filters sample_builtins [cpu_4_cores, cpu_8_cores]
     [(''brand'', PStr ''Generic''), (''core_count'', PStr ''>=6'')] = Inr [cpu_8_cores] \<and>
   apply_spec_filters sample_builtins [cpu_8_cores]
     [(''brand'', PStr ''Generic''), (''core_count'', PStr ''>=6'')] = Inr [cpu_8_cores]"
proof -
  have h: "apply_spec_filters sample_builtins [cpu_4_cores, cpu_8_cores]
     [(''brand'', PStr ''Generic''), (''core_count'', PStr ''>=6'')] = Inr [cpu_8_cores]"
    by code_simp
  show ?thesis
    using h apply_spec_filters_idempotent [OF h] by simp
qed

subsection \<open>Compatibility rule engine\<close>

lemma escalates_to_llm:
  assumes "escalates rules env a b"
  shows "check_compatibility rules env out a b = check_with_llm env out a b"
proof -
  from assms obtain cat_a cat_b where
    cats: "py_getitem a ''category'' = Inr cat_a" "py_getitem b ''category'' = Inr cat_b"
    by (auto simp: escalates_def split: sum.splits)
  show ?thesis
  proof (cases "map_of rules (check_type env cat_a cat_b)")
    case None
    with cats show ?thesis by (simp add: check_compatibility_def)
  next
    case (Some rule)
    with assms cats obtain c m conf where
      v: "rule a b = Inr (c, m, conf)" and low: "py_lt (PFloat (8 / 10)) conf = Inr False"
      by (auto simp: escalates_def split: sum.splits prod.splits)
    with cats Some show ?thesis
      by (simp add: check_compatibility_def apply_rule_def)
  qed
qed

text \<open>
  Claim C1. For an ordered pair of records whose check type has a rule in the table,
  when the rule returns a verdict with a confidence strictly greater than 0.8
  \<open>check_compatibility\<close> returns that verdict as final, and when the confidence is less
  than or equal to 0.8, exactly 0.8 included, it returns what the adjudicator returns
  and the local verdict is dropped.
\<close>

theorem check_compatibility_threshold:
  assumes "py_getitem a ''category'' = Inr cat_a"
    and "py_getitem b ''category'' = Inr cat_b"
    and "map_of rules (check_type env cat_a cat_b) = Some rule"
    and "rule a b = Inr (compatible, message, PFloat confidence)"
  shows "(confidence > 8 / 10 \<longrightarrow>
            check_compatibility rules env out a b = Inr (compatible, message, PFloat confidence)) \<and>
         (confidence \<le> 8 / 10 \<longrightarrow>
            check_compatibility rules env out a b = check_with_llm env out a b)"
  using assms
  by (auto simp: check_compatibility_def apply_rule_def py_lt_def num_of_def)

lemma check_cpu_motherboard_confidence:
  "check_cpu_motherboard a b = Inr (c, m, conf) \<Longrightarrow> conf \<in> {PFloat 1, PFloat (1 / 2)}"
  by (auto simp: check_cpu_motherboard_def py_bind_def split: sum.splits if_splits)

lemma check_motherboard_memory_confidence:
  "check_motherboard_memory a b = Inr (c, m, conf) \<Longrightarrow> conf \<in> {PFloat 1, PFloat (9 / 10), PFloat (1 / 2)}"
  by (auto simp: check_motherboard_memory_def py_bind_def Let_def split: sum.splits if_splits option.splits)

lemma check_motherboard_case_confidence:
  "check_motherboard_case a b = Inr (c, m, conf) \<Longrightarrow> conf \<in> {PFloat 1, PFloat (9 / 10), PFloat (1 / 2)}"
  by (auto simp: check_motherboard_case_def py_bind_def split: sum.splits if_splits)

lemma check_gpu_case_confidence:
  "check_gpu_case a b = Inr (c, m, conf) \<Longrightarrow> conf \<in> {PFloat 1, PFloat (9 / 10), PFloat (1 / 2)}"
  by (auto simp: check_gpu_case_def split: sum.splits if_splits prod.splits)

lemma check_gpu_power_confidence:
  "check_gpu_power a b = Inr (c, m, conf) \<Longrightarrow> conf \<in> {PFloat (9 / 10), PFloat (6 / 10)}"
  by (auto simp: check_gpu_power_def py_bind_def Let_def split: sum.splits if_splits)

lemma check_power_motherboard_confidence:
  "check_power_motherboard a b = Inr (c, m, conf) \<Longrightarrow> conf \<in> {PFloat 1, PFloat (9 / 10), PFloat (1 / 2)}"
  by (auto simp: check_power_motherboard_def py_bind_def split: sum.splits if_splits)

lemma init_rules_confidence:
  assumes "map_of init_rules k = Some rule" and "rule a b = Inr (c, m, conf)"
  shows "\<exists>r. conf = PFloat r"
proof -
  from assms(1) have "rule \<in> {check_cpu_motherboard, check_motherboard_memory,
      check_motherboard_case, check_gpu_case, check_gpu_power, check_power_motherboard}"
    by (auto simp: init_rules_def split: if_splits)
  with assms(2) show ?thesis
    by (auto dest: check_cpu_motherboard_confidence check_motherboard_memory_confidence
        check_motherboard_case_confidence check_gpu_case_confidence
        check_gpu_power_confidence check_power_motherboard_confidence)
qed

theorem check_compatibility_threshold_witness:
  "check_compatibility init_rules sample_builtins ''no json'' cpu_8_cores mobo_lga1700 =
     Inr (PBool True, Socket_match (PStr ''LGA 1700''), PFloat 1) \<and>
   check_compatibility [(''ram_case'', rule_at_threshold)] sample_builtins ''no json''
     ram_stick tower_case =
     check_with_llm sample_builtins ''no json'' ram_stick tower_case"
proof -
  have a: "py_getitem cpu_8_cores ''category'' = Inr (PStr ''cpu'')"
    and b: "py_getitem mobo_lga1700 ''category'' = Inr (PStr ''motherboard'')"
    and r: "map_of init_rules (check_type sample_builtins (PStr ''cpu'') (PStr ''motherboard'')) =
              Some check_cpu_motherboard"
    by (simp_all add: cpu_8_cores_def mobo_lga1700_def component_def py_getitem_def
        init_rules_def check_type_def py_str_def)
  have v: "check_cpu_motherboard cpu_8_cores mobo_lga1700 =
             Inr (PBool True, Socket_match (PStr ''LGA 1700''), PFloat 1)"
    by code_simp
  have a': "py_getitem ram_stick ''category'' = Inr (PStr ''ram'')"
    and b': "py_getitem tower_case ''category'' = Inr (PStr ''case'')"
    and r': "map_of [(''ram_case'', rule_at_threshold)]
               (check_type sample_builtins (PStr ''ram'') (PStr ''case'')) = Some rule_at_threshold"
    and v': "rule_at_threshold ram_stick tower_case = Inr (PBool True, Power_ok, PFloat (8 / 10))"
    by (simp_all add: ram_stick_def tower_case_def component_def py_getitem_def
        check_type_def py_str_def rule_at_threshold_def)
  show ?thesis
    using check_compatibility_threshold [OF a b r v, of "''no json''"]
      check_compatibility_threshold [OF a' b' r' v', of "''no json''"]
    by simp
qed

text \<open>
  Claim C2. If the reply of the adjudicator does not parse as JSON, \<open>_check_with_llm\<close>
  returns the verdict \<open>(False, "LLM check failed, please confirm by hand", 0.0)\<close> for
  every pair of records whose prompt fields can be read, and so does
  \<open>check_compatibility\<close> whenever it hands the pair to the adjudicator; no exception
  reaches the caller.
\<close>

theorem malformed_reply_gives_failure_verdict:
  assumes "json_loads env out = None"
    and "prompt_fields a = Inr ()" and "prompt_fields b = Inr ()"
  shows "check_with_llm env out a b = Inr (PBool False, LLM_check_failed, PFloat 0) \<and>
         (escalates rules env a b \<longrightarrow>
            check_compatibility rules env out a b = Inr (PBool False, LLM_check_failed, PFloat 0))"
  using assms by (simp add: check_with_llm_def escalates_to_llm)

theorem malformed_reply_gives_failure_verdict_witness:
  "check_with_llm sample_builtins ''no json'' ram_stick tower_case =
     Inr (PBool False, LLM_check_failed, PFloat 0) \<and>
   check_compatibility init_rules sample_builtins ''no json'' ram_stick tower_case =
     Inr (PBool False, LLM_check_failed, PFloat 0) \<and>
   check_compatibility init_rules sample_builtins ''no json'' cpu_no_socket mobo_lga1700 =
     Inr (PBool False, LLM_check_failed, PFloat 0)"
proof -
  have j: "json_loads sample_builtins ''no json'' = None"
    by (simp add: sample_builtins_def)
  have p: "prompt_fields ram_stick = Inr ()" "prompt_fields tower_case = Inr ()"
    "prompt_fields cpu_no_socket = Inr ()" "prompt_fields mobo_lga1700 = Inr ()"
    by code_simp+
  have e: "escalates init_rules sample_builtins ram_stick tower_case"
    "escalates init_rules sample_builtins cpu_no_socket mobo_lga1700"
    by code_simp+
  show ?thesis
    using malformed_reply_gives_failure_verdict [OF j p(1) p(2), of init_rules]
      malformed_reply_gives_failure_verdict [OF j p(3) p(4), of init_rules] e
    by simp
qed

text \<open>
  Claim C10. If the reply of the adjudicator parses as a JSON object that lacks one of
  the keys \<open>compatible\<close>, \<open>reason\<close>, \<open>confidence\<close>, then \<open>_check_with_llm\<close>, and with
  it \<open>check_compatibility\<close> whenever it hands the pair to the adjudicator, raises
  \<open>KeyError\<close> instead of returning the failure verdict: only the decode error is caught.
\<close>

theorem missing_reply_key_propagates_KeyError:
  assumes "json_loads env out = Some (PDict result)"
    and "map_of result ''compatible'' = None \<or> map_of result ''reason'' = None \<or>
         map_of result ''confidence'' = None"
    and "prompt_fields a = Inr ()" and "prompt_fields b = Inr ()"
  shows "check_with_llm env out a b = Inl KeyError \<and>
         (escalates rules env a b \<longrightarrow> check_compatibility rules env out a b = Inl KeyError)"
proof -
  from assms have "check_with_llm env out a b = Inl KeyError"
    by (auto simp: check_with_llm_def py_getitem_def split: option.splits)
  then show ?thesis by (simp add: escalates_to_llm)
qed

theorem missing_reply_key_propagates_KeyError_witness:
  "check_with_llm sample_builtins ''{}'' ram_stick tower_case = Inl KeyError \<and>
   check_compatibility init_rules sample_builtins ''{}'' ram_stick tower_case = Inl KeyError"
proof -
  have j: "json_loads sample_builtins ''{}'' = Some (PDict [])"
    by (simp add: sample_builtins_def)
  have k: "map_of ([] :: (string \<times> pyval) list) ''compatible'' = None \<or>
           map_of ([] :: (string \<times> pyval) list) ''reason'' = None \<or>
           map_of ([] :: (string \<times> pyval) list) ''confidence'' = None"
    by simp
  have p: "prompt_fields ram_stick = Inr ()" "prompt_fields tower_case = Inr ()"
    by code_simp+
  have e: "escalates init_rules sample_builtins ram_stick tower_case"
    by code_simp
  show ?thesis
    using missing_reply_key_propagates_KeyError [OF j k p(1) p(2), of init_rules] e
    by simp
qed

text \<open>
  The claim C4 as the specification states it fails: for the categories \<open>gpu\<close> then
  \<open>psu\<close> the check type is \<open>gpu_psu\<close>, the table has no rule under that key, and a pair
  that the local GPU-PSU rule would accept is handed to the adjudicator instead.
\<close>

theorem gpu_psu_pair_escalates_counterexample:
  "check_type sample_builtins (PStr ''gpu'') (PStr ''psu'') = ''gpu_psu'' \<and>
   map_of init_rules ''gpu_psu'' = None \<and>
   check_gpu_power gpu_two_connectors psu_750 = Inr (PBool True, Power_ok, PFloat (9 / 10)) \<and>
   check_compatibility init_rules sample_builtins ''no json'' gpu_two_connectors psu_750 =
     Inr (PBool False, LLM_check_failed, PFloat 0)"
  by (intro conjI; code_simp)

text \<open>
  Claim C4, amended. The check type is the ordered concatenation of the two categories.
  The GPU-PSU rule is registered under \<open>gpu_power\<close> and the PSU-motherboard rule under
  \<open>power_motherboard\<close>: \<open>check_compatibility\<close> dispatches to them for the categories
  \<open>gpu\<close> then \<open>power\<close> and \<open>power\<close> then \<open>motherboard\<close>. For \<open>gpu\<close> then \<open>psu\<close> and
  for \<open>psu\<close> then \<open>motherboard\<close> no rule is registered and the pair goes to the
  adjudicator.
\<close>

theorem power_supply_pairs_dispatch:
  assumes "py_getitem a ''category'' = Inr (PStr cat_a)"
    and "py_getitem b ''category'' = Inr (PStr cat_b)"
  shows "check_type env (PStr cat_a) (PStr cat_b) = cat_a @ ''_'' @ cat_b \<and>
         (cat_a = ''gpu'' \<and> cat_b = ''psu'' \<longrightarrow>
            map_of init_rules (cat_a @ ''_'' @ cat_b) = None \<and>
            check_compatibility init_rules env out a b = check_with_llm env out a b) \<and>
         (cat_a = ''psu'' \<and> cat_b = ''motherboard'' \<longrightarrow>
            map_of init_rules (cat_a @ ''_'' @ cat_b) = None \<and>
            check_compatibility init_rules env out a b = check_with_llm env out a b) \<and>
         (cat_a = ''gpu'' \<and> cat_b = ''power'' \<longrightarrow>
            map_of init_rules (cat_a @ ''_'' @ cat_b) = Some check_gpu_power \<and>
            check_compatibility init_rules env out a b =
              apply_rule check_gpu_power env out a b) \<and>
         (cat_a = ''power'' \<and> cat_b = ''motherboard'' \<longrightarrow>
            map_of init_rules (cat_a @ ''_'' @ cat_b) = Some check_power_motherboard \<and>
            check_compatibility init_rules env out a b =
              apply_rule check_power_motherboard env out a b)"
  using assms
  by (simp add: check_compatibility_def check_type_def py_str_def init_rules_def)

theorem power_supply_pairs_dispatch_witness:
  "check_compatibility init_rules sample_builtins ''no json'' gpu_two_connectors power_750 =
     Inr (PBool True, Power_ok, PFloat (9 / 10)) \<and>
   check_compatibility init_rules sample_builtins ''no json'' power_750 mobo_24_pin =
     Inr (PBool True, Connector_match (PStr ''24-PIN''), PFloat 1) \<and>
   check_compatibility init_rules sample_builtins ''no json'' gpu_two_connectors psu_750 =
     check_with_llm sample_builtins ''no json'' gpu_two_connectors psu_750"
proof -
  have c: "py_getitem gpu_two_connectors ''category'' = Inr (PStr ''gpu'')"
    "py_getitem power_750 ''category'' = Inr (PStr ''power'')"
    "py_getitem mobo_24_pin ''category'' = Inr (PStr ''motherboard'')"
    "py_getitem psu_750 ''category'' = Inr (PStr ''psu'')"
    by code_simp+
  have r: "apply_rule check_gpu_power sample_builtins ''no json'' gpu_two_connectors power_750 =
             Inr (PBool True, Power_ok, PFloat (9 / 10))"
    "apply_rule check_power_motherboard sample_builtins ''no json'' power_750 mobo_24_pin =
             Inr (PBool True, Connector_match (PStr ''24-PIN''), PFloat 1)"
    by code_simp+
  show ?thesis
    using power_supply_pairs_dispatch [OF c(1) c(2), of sample_builtins "''no json''"]
      power_supply_pairs_dispatch [OF c(2) c(3), of sample_builtins "''no json''"]
      power_supply_pairs_dispatch [OF c(1) c(4), of sample_builtins "''no json''"] r
    by simp
qed

text \<open>
  The claim C9 as the specification states it fails: both records carry the socket
  \<open>-\<close>, the normalized sockets are equal (both empty), and the rule returns the
  indeterminate verdict with confidence 0.5, not \<open>True\<close> with confidence 1.0.
\<close>

theorem equal_empty_sockets_counterexample:
  "py_getitem cpu_dash_socket ''specs'' = Inr (PDict [(''socket'', PStr ''-'')]) \<and>
   py_getitem mobo_dash_socket ''specs'' = Inr (PDict [(''socket'', PStr ''-'')]) \<and>
   socket_cleaner (PStr ''-'') = Inr [] \<and>
   check_cpu_motherboard cpu_dash_socket mobo_dash_socket =
     Inr (PNone, Socket_missing, PFloat (1 / 2))"
  by (intro conjI; code_simp)

lemma socket_cleaner_PStr:
  "socket_cleaner (PStr s) = Inr (filter is_lower_alnum (filter (\<lambda>c. c \<noteq> CHR '' '') (lower s)))"
  by (simp add: socket_cleaner_def str_lower_def)

lemma dict_get_socket_shown:
  assumes "dict_get (PDict d) ''socket'' (PStr []) = Inr (PStr s)"
    and "socket_cleaner (PStr s) = Inr n" and "n \<noteq> []"
  shows "py_getitem (PDict d) ''socket'' = Inr (PStr s)"
proof (cases "map_of d ''socket''")
  case None
  with assms(1) have "s = []" by (simp add: dict_get_def)
  with assms(2,3) show ?thesis by (simp add: socket_cleaner_PStr lower_def)
next
  case (Some v)
  with assms(1) show ?thesis by (simp add: dict_get_def py_getitem_def)
qed

text \<open>
  Claim C9, amended. For a cpu record and a motherboard record whose \<open>socket\<close> is a string
  or absent, the rule lowercases both sockets and strips every character that is not a
  lowercase letter or a digit; it returns \<open>True\<close> with confidence 1.0 exactly when both
  normalized sockets are non-empty and equal, \<open>False\<close> with confidence 1.0 when both are
  non-empty and differ, and the indeterminate verdict with confidence 0.5 when a socket is
  absent or normalizes to the empty string, in which case \<open>check_compatibility\<close> hands
  the pair to the adjudicator. \<open>LGA 1700\<close> and \<open>lga1700\<close> normalize to the same string.
\<close>

theorem check_cpu_motherboard_sockets:
  assumes "py_getitem cpu ''specs'' = Inr (PDict cpu_specs)"
    and "py_getitem motherboard ''specs'' = Inr (PDict mobo_specs)"
    and "dict_get (PDict cpu_specs) ''socket'' (PStr []) = Inr (PStr cpu_raw)"
    and "dict_get (PDict mobo_specs) ''socket'' (PStr []) = Inr (PStr mobo_raw)"
    and "socket_cleaner (PStr cpu_raw) = Inr cpu_socket"
    and "socket_cleaner (PStr mobo_raw) = Inr mobo_socket"
  shows "check_cpu_motherboard cpu motherboard =
           Inr (if cpu_socket \<noteq> [] \<and> mobo_socket \<noteq> [] then
                  if cpu_socket = mobo_socket
                  then (PBool True, Socket_match (PStr cpu_raw), PFloat 1)
                  else (PBool False, Socket_mismatch (PStr cpu_raw) (PStr mobo_raw), PFloat 1)
                else (PNone, Socket_missing, PFloat (1 / 2))) \<and>
         (py_getitem cpu ''category'' = Inr (PStr ''cpu'') \<and>
          py_getitem motherboard ''category'' = Inr (PStr ''motherboard'') \<and>
          (cpu_socket = [] \<or> mobo_socket = []) \<longrightarrow>
            check_compatibility init_rules env out cpu motherboard =
              check_with_llm env out cpu motherboard) \<and>
         socket_cleaner (PStr ''LGA 1700'') = socket_cleaner (PStr ''lga1700'')"
proof -
  have shown_cpu: "cpu_socket \<noteq> [] \<Longrightarrow> py_getitem (PDict cpu_specs) ''socket'' = Inr (PStr cpu_raw)"
    using assms(3,5) by (rule dict_get_socket_shown)
  have shown_mobo: "mobo_socket \<noteq> [] \<Longrightarrow> py_getitem (PDict mobo_specs) ''socket'' = Inr (PStr mobo_raw)"
    using assms(4,6) by (rule dict_get_socket_shown)
  have rule: "check_cpu_motherboard cpu motherboard =
           Inr (if cpu_socket \<noteq> [] \<and> mobo_socket \<noteq> [] then
                  if cpu_socket = mobo_socket
                  then (PBool True, Socket_match (PStr cpu_raw), PFloat 1)
                  else (PBool False, Socket_mismatch (PStr cpu_raw) (PStr mobo_raw), PFloat 1)
                else (PNone, Socket_missing, PFloat (1 / 2)))"
    using assms shown_cpu shown_mobo by (simp add: check_cpu_motherboard_def)
  have esc: "check_compatibility init_rules env out cpu motherboard =
              check_with_llm env out cpu motherboard"
    if "py_getitem cpu ''category'' = Inr (PStr ''cpu'')"
      "py_getitem motherboard ''category'' = Inr (PStr ''motherboard'')"
      "cpu_socket = [] \<or> mobo_socket = []"
    using that rule
    by (auto simp: check_compatibility_def check_type_def py_str_def init_rules_def
        apply_rule_def py_lt_def num_of_def)
  have norm: "socket_cleaner (PStr ''LGA 1700'') = socket_cleaner (PStr ''lga1700'')"
    by code_simp
  from rule esc norm show ?thesis by blast
qed

theorem check_cpu_motherboard_sockets_witness:
  "check_cpu_motherboard cpu_8_cores mobo_lga1700 =
     Inr (PBool True, Socket_match (PStr ''LGA 1700''), PFloat 1) \<and>
   check_cpu_motherboard cpu_4_cores mobo_lga1700 =
     Inr (PBool False, Socket_mismatch (PStr ''AM4'') (PStr ''lga1700''), PFloat 1) \<and>
   check_cpu_motherboard cpu_no_socket mobo_lga1700 =
     Inr (PNone, Socket_missing, PFloat (1 / 2)) \<and>
   check_compatibility init_rules sample_builtins ''no json'' cpu_no_socket mobo_lga1700 =
     check_with_llm sample_builtins ''no json'' cpu_no_socket mobo_lga1700"
proof -
  have m: "py_getitem mobo_lga1700 ''specs'' =
             Inr (PDict [(''socket'', PStr ''lga1700''), (''form_factor'', PStr ''ATX'')])"
    and mg: "dict_get (PDict [(''socket'', PStr ''lga1700''), (''form_factor'', PStr ''ATX'')])
               ''socket'' (PStr []) = Inr (PStr ''lga1700'')"
    and mc: "socket_cleaner (PStr ''lga1700'') = Inr ''lga1700''"
    and mcat: "py_getitem mobo_lga1700 ''category'' = Inr (PStr ''motherboard'')"
    by code_simp+
  have a: "py_getitem cpu_8_cores ''specs'' =
             Inr (PDict [(''core_count'', PInt 8), (''socket'', PStr ''LGA 1700'')])"
    and ag: "dict_get (PDict [(''core_count'', PInt 8), (''socket'', PStr ''LGA 1700'')])
               ''socket'' (PStr []) = Inr (PStr ''LGA 1700'')"
    and ac: "socket_cleaner (PStr ''LGA 1700'') = Inr ''lga1700''"
    by code_simp+
  have b: "py_getitem cpu_4_cores ''specs'' =
             Inr (PDict [(''core_count'', PInt 4), (''socket'', PStr ''AM4'')])"
    and bg: "dict_get (PDict [(''core_count'', PInt 4), (''socket'', PStr ''AM4'')])
               ''socket'' (PStr []) = Inr (PStr ''AM4'')"
    and bc: "socket_cleaner (PStr ''AM4'') = Inr ''am4''"
    by code_simp+
  have c: "py_getitem cpu_no_socket ''specs'' = Inr (PDict [(''tdp'', PInt 65)])"
    and cg: "dict_get (PDict [(''tdp'', PInt 65)]) ''socket'' (PStr []) = Inr (PStr [])"
    and cc: "socket_cleaner (PStr []) = Inr []"
    and ccat: "py_getitem cpu_no_socket ''category'' = Inr (PStr ''cpu'')"
    by code_simp+
  show ?thesis
    using check_cpu_motherboard_sockets [OF a m ag mg ac mc]
      check_cpu_motherboard_sockets [OF b m bg mg bc mc]
      check_cpu_motherboard_sockets [OF c m cg mg cc mc, of sample_builtins "''no json''"]
      ccat mcat
    by simp
qed

text \<open>
  Claim C3 fails on the code at three inputs with spec values of the wrong type: the
  GPU-PSU rule compares the integer 750 with the text \<open>650W\<close>, the dotted-path descent
  tests membership in the number 5, and the CPU power multiplies the text \<open>65W\<close> by 1.2.
  Each raises \<open>TypeError\<close> to the caller.
\<close>

theorem malformed_specs_raise:
  "check_gpu_power gpu_text_wattage power_750 = Inl TypeError \<and>
   check_compatibility init_rules sample_builtins ''no json'' gpu_text_wattage power_750 =
     Inl TypeError \<and>
   apply_spec_filters sample_builtins [cpu_flat_benchmarks]
     [(''benchmarks.cinebench_r23_single'', PStr ''>=1000'')] = Inl TypeError \<and>
   calculate_power_consumption sample_builtins [cpu_text_tdp] = Inl TypeError"
  by (intro conjI; code_simp)

subsection \<open>Power budget estimator\<close>

lemma py_round_examples:
  "py_round (345 / 2) = 172" "py_round 207 = 207" "py_round 318 = 318" "py_round (1908 / 5) = 382"
  by code_simp+

text \<open>
  The claim C5 as the specification states it fails: a GPU named \<open>GeForce RTX 4090\<close>,
  without a TDP and with the recommended PSU text \<open>abc\<close>, gets the base power 150, while
  the name table has 450 for its model string.
\<close>

theorem text_psu_skips_name_table_counterexample:
  "py_getitem gpu_4090_text_psu ''specs'' = Inr (PDict [(''recommended_psu'', PStr ''abc'')]) \<and>
   py_getitem gpu_4090_text_psu ''model'' = Inr (PStr ''GeForce RTX 4090'') \<and>
   gpu_model_power (lower ''GeForce RTX 4090'') = 450 \<and>
   gpu_base_power sample_builtins gpu_4090_text_psu = Inr (PInt 150)"
  by (intro conjI; code_simp)

text \<open>
  Claim C5, amended. For a GPU record with a \<open>model\<close> field and without a TDP spec: if
  it has a \<open>recommended_psu\<close> spec whose text contains no digit, nothing raises and the
  base power is the default 150 whatever the model string is, so that the GPU contributes
  150 * 1.15 = 172.5 under the key built from its model, and the estimate for this GPU
  alone is 172 with the recommended wattage 450; the name table is consulted only when
  the record has no \<open>recommended_psu\<close> spec, on the lowercased model string.
\<close>

theorem gpu_fallback_chain:
  assumes "py_getitem gpu ''specs'' = Inr (PDict specs)"
    and "map_of specs ''tdp'' = None"
    and "py_getitem gpu ''model'' = Inr model"
  shows "(map_of specs ''recommended_psu'' = Some recommended_psu \<and>
          search_digits (py_str env recommended_psu) = None \<longrightarrow>
            gpu_base_power env gpu = Inr (PInt 150) \<and>
            add_gpu env gpu acc =
              Inr (fst acc + 345 / 2,
                   dict_set (snd acc) (''gpu_'' @ py_str env model) (PFloat (345 / 2))) \<and>
            (py_getitem gpu ''category'' = Inr (PStr ''gpu'') \<longrightarrow>
               calculate_power_consumption env [gpu] =
                 Inr \<lparr>total_power_estimate = 172, recommended_psu_wattage = 450,
                      component_breakdown =
                        [(''gpu_'' @ py_str env model, PFloat (345 / 2))]\<rparr>)) \<and>
         (map_of specs ''recommended_psu'' = None \<and> model = PStr m \<longrightarrow>
            gpu_base_power env gpu = Inr (PInt (gpu_model_power (lower m))))"
proof -
  have base: "gpu_base_power env gpu = Inr (PInt 150)"
    and step: "add_gpu env gpu acc =
              Inr (fst acc + 345 / 2,
                   dict_set (snd acc) (''gpu_'' @ py_str env model) (PFloat (345 / 2)))"
    if "map_of specs ''recommended_psu'' = Some recommended_psu"
      "search_digits (py_str env recommended_psu) = None"
    using assms that
    by (simp_all add: gpu_base_power_def add_gpu_def py_contains_def py_getitem_def
        py_mul_float_def num_of_def)
  have whole: "calculate_power_consumption env [gpu] =
                 Inr \<lparr>total_power_estimate = 172, recommended_psu_wattage = 450,
                      component_breakdown =
                        [(''gpu_'' @ py_str env model, PFloat (345 / 2))]\<rparr>"
    if "map_of specs ''recommended_psu'' = Some recommended_psu"
      "search_digits (py_str env recommended_psu) = None"
      "py_getitem gpu ''category'' = Inr (PStr ''gpu'')"
    using assms that
    by (simp add: calculate_power_consumption_def hashable_def add_cpu_def
        gpu_base_power_def add_gpu_def py_contains_def py_getitem_def
        py_mul_float_def num_of_def COMPONENT_POWER_ESTIMATES_def common_psu_wattages_def
        py_round_examples)
  have table: "gpu_base_power env gpu = Inr (PInt (gpu_model_power (lower m)))"
    if "map_of specs ''recommended_psu'' = None" "model = PStr m"
    using assms that
    by (simp add: gpu_base_power_def py_contains_def py_getitem_def str_lower_def)
  from base step whole table show ?thesis by blast
qed

theorem gpu_fallback_chain_witness:
  "gpu_base_power sample_builtins gpu_4090_text_psu = Inr (PInt 150) \<and>
   calculate_power_consumption sample_builtins [gpu_4090_text_psu] =
     Inr \<lparr>total_power_estimate = 172, recommended_psu_wattage = 450,
          component_breakdown = [(''gpu_GeForce RTX 4090'', PFloat (345 / 2))]\<rparr> \<and>
   gpu_base_power sample_builtins gpu_4080_bare = Inr (PInt 320)"
proof -
  have a: "py_getitem gpu_4090_text_psu ''specs'' = Inr (PDict [(''recommended_psu'', PStr ''abc'')])"
    and t: "map_of [(''recommended_psu'', PStr ''abc'')] ''tdp'' = None"
    and m: "py_getitem gpu_4090_text_psu ''model'' = Inr (PStr ''GeForce RTX 4090'')"
    and r: "map_of [(''recommended_psu'', PStr ''abc'')] ''recommended_psu'' = Some (PStr ''abc'')"
    and d: "search_digits (py_str sample_builtins (PStr ''abc'')) = None"
    and c: "py_getitem gpu_4090_text_psu ''category'' = Inr (PStr ''gpu'')"
    by code_simp+
  have a': "py_getitem gpu_4080_bare ''specs'' = Inr (PDict [])"
    and t': "map_of ([] :: (string \<times> pyval) list) ''tdp'' = None"
    and m': "py_getitem gpu_4080_bare ''model'' = Inr (PStr ''GeForce RTX 4080'')"
    and r': "map_of ([] :: (string \<times> pyval) list) ''recommended_psu'' = None"
    and g: "gpu_model_power (lower ''GeForce RTX 4080'') = 320"
    by code_simp+
  show ?thesis
    using gpu_fallback_chain [OF a t m, of "PStr ''abc''" sample_builtins]
      gpu_fallback_chain [OF a' t' m', of _ _ _ "''GeForce RTX 4080''"] r d c r' g
    by (simp add: py_str_def)
qed

text \<open>
  Claim C8 fails on the code at the example list of the specification as written there:
  the GPU record has no \<open>model\<close> field, and the key of its entry in the breakdown is built
  from \<open>gpu['model']\<close>, which raises \<open>KeyError\<close>. The sample configuration of the module
  itself has a GPU without a \<open>model\<close> field and raises in the same place.
\<close>

theorem spec_example_raises_KeyError:
  "calculate_power_consumption sample_builtins spec_example = Inl KeyError \<and>
   calculate_power_consumption sample_builtins sample_config = Inl KeyError"
  by (intro conjI; code_simp)

text \<open>With a \<open>model\<close> field on the GPU the numbers of the example are those of the
  specification: 78 for the CPU, 230 for the GPU, 5 and 5 for RAM and SSD, the total 318,
  and 318 * 1.2 = 381.6, rounded to 382 and then up to the standard wattage 450.\<close>

lemma spec_example_with_model_report:
  "calculate_power_consumption env (spec_example_with_model m) =
     Inr \<lparr>total_power_estimate = 318, recommended_psu_wattage = 450,
          component_breakdown =
            [(''cpu'', PFloat 78), (''gpu_'' @ m, PFloat 230), (''ram'', PInt 5),
             (''ssd'', PInt 5)]\<rparr>"
  by (simp add: spec_example_with_model_def calculate_power_consumption_def hashable_def add_cpu_def
      gpu_base_power_def add_gpu_def py_contains_def py_getitem_def dict_get_def py_str_def
      py_mul_float_def num_of_def COMPONENT_POWER_ESTIMATES_def common_psu_wattages_def
      py_round_examples)

end
